theory Spec2Isabelle
  imports Complex_Main "HOL-Library.Multiset"
begin

section \<open>Shared data: events, files, observable effects\<close>

text \<open>
  The client is a set of React components.  A component function is modelled by the
  values it computes and by the trace of observable effects its handlers produce
  (HTTP requests, timers, toasts, navigation, downloads), in program order.  Component
  state (the \<open>useState\<close> cells) is a record that the handlers return updated.
  Request headers (the bearer token) and the configured base address are left out of
  the request effects: only the path and the body are recorded.
\<close>

text \<open>
  A JSON field that may be absent or \<open>null\<close> is a \<open>string option\<close>.  JavaScript
  truthiness of such a field: \<open>null\<close>, \<open>undefined\<close> and the empty string are falsy.
\<close>

definition truthy :: "string option \<Rightarrow> bool" where
  "truthy v = (case v of None \<Rightarrow> False | Some s \<Rightarrow> s \<noteq> [])"

text \<open>The JavaScript expression \<open>v || d\<close> for an optional string \<open>v\<close>.\<close>

definition orDefault :: "string option \<Rightarrow> string \<Rightarrow> string" where
  "orDefault v d = (case v of None \<Rightarrow> d | Some s \<Rightarrow> (if s = [] then d else s))"

record event =
  ev_event :: string
  ev_start :: "string option"
  ev_end :: "string option"
  ev_location :: "string option"
  ev_description :: "string option"
  ev_severity :: "string option"
  ev_suggestion :: "string option"

record upload_file =
  f_name :: string
  f_type :: string
  f_size :: nat

type_synonym blob = "nat list"

datatype body = EmptyBody | FormFile upload_file

datatype effect =
    HttpGet string
  | HttpPost string body
  | SetTimeout nat
  | ToastLoading string
  | ToastSuccess string
  | ToastError string
  | ToastDismiss
  | ConsoleError string
  | Navigate string
  | Download string blob

fun isHttp :: "effect \<Rightarrow> bool" where
  "isHttp (HttpGet p) = True"
| "isHttp (HttpPost p b) = True"
| "isHttp e = False"

section \<open>Results page (pages/Results.jsx)\<close>

record job_data =
  jd_status :: string
  jd_filename :: string
  jd_events :: "event list option"
  jd_error :: "string option"

text \<open>
  The answer to one \<open>GET /api/result/<jobId>\<close>: \<open>Inr data\<close> is \<open>response.data\<close>,
  \<open>Inl detail\<close> is a rejected request with \<open>err.response?.data?.detail\<close>.
\<close>

type_synonym response = "string option + job_data"

record results_state =
  rs_job :: "job_data option"
  rs_loading :: bool
  rs_error :: "string option"
  rs_showTimeline :: bool
  rs_retryCount :: nat

definition initialState :: results_state where
  "initialState =
     \<lparr>rs_job = None, rs_loading = True, rs_error = None,
      rs_showTimeline = False, rs_retryCount = 0\<rparr>"

definition maxRetries :: nat where
  "maxRetries = 30"

definition resultPath :: "string \<Rightarrow> string" where
  "resultPath jobId = ''/api/result/'' @ jobId"

text \<open>
  \<open>fetchResults\<close> is a closure created by one render of the component: the name
  \<open>retryCount\<close> in its body is the constant that this render read from \<open>useState\<close>.
  The timer callback it registers calls \<open>setRetryCount(prev => prev + 1)\<close>, which
  updates the state cell, and then calls \<open>fetchResults()\<close>, which is the same
  closure (the \<open>const\<close> of the same render).  So the second argument below, the
  captured \<open>retryCount\<close>, is passed unchanged to the recursive call, while the state
  cell \<open>rs_retryCount\<close> is incremented.

  The third argument lists the server's answers to the successive requests; when it
  is exhausted the last request has been sent and is still awaited.
\<close>

fun fetchResults ::
  "string \<Rightarrow> nat \<Rightarrow> response list \<Rightarrow> results_state \<Rightarrow> results_state \<times> effect list" where
  "fetchResults jobId retryCount [] st =
     (st\<lparr>rs_error := None\<rparr>, [HttpGet (resultPath jobId)])"
| "fetchResults jobId retryCount (Inl detail # rest) st =
     (st\<lparr>rs_error := Some (orDefault detail ''Failed to fetch results''),
         rs_loading := False\<rparr>,
      [HttpGet (resultPath jobId), ConsoleError ''Error fetching results:''])"
| "fetchResults jobId retryCount (Inr data # rest) st =
     (let st1 = st\<lparr>rs_error := None, rs_job := Some data\<rparr> in
      if jd_status data = ''processing'' \<and> retryCount < maxRetries then
        (case fetchResults jobId retryCount rest
                (st1\<lparr>rs_retryCount := Suc (rs_retryCount st1)\<rparr>) of
           (st', tr) \<Rightarrow> (st', HttpGet (resultPath jobId) # SetTimeout 2000 # tr))
      else if jd_status data = ''processing'' \<and> retryCount \<ge> maxRetries then
        (st1\<lparr>rs_error :=
               Some ''Processing is taking longer than expected. Please check back later.'',
             rs_loading := False\<rparr>,
         [HttpGet (resultPath jobId)])
      else if jd_status data = ''completed'' then
        (st1\<lparr>rs_loading := False, rs_retryCount := 0\<rparr>,
         [HttpGet (resultPath jobId), ToastSuccess ''Document processed successfully!''])
      else if jd_status data = ''failed'' then
        (st1\<lparr>rs_loading := False,
             rs_error := Some (orDefault (jd_error data) ''Processing failed'')\<rparr>,
         [HttpGet (resultPath jobId)])
      else
        (st1\<lparr>rs_loading := False\<rparr>, [HttpGet (resultPath jobId)]))"

text \<open>
  The effect of mounting the page: \<open>useEffect\<close> runs the first render's
  \<open>fetchResults\<close> when \<open>jobId\<close> is truthy.  The first render reads the initial
  state, so the captured \<open>retryCount\<close> is \<open>0\<close>.
\<close>

definition mount :: "string \<Rightarrow> response list \<Rightarrow> results_state \<times> effect list" where
  "mount jobId rsps =
     (if jobId \<noteq> [] then fetchResults jobId (rs_retryCount initialState) rsps initialState
      else (initialState, []))"

text \<open>
  \<open>handleRetry\<close>, as created by a render that read the state \<open>st\<close>: three state
  updates, then this render's \<open>fetchResults\<close>, whose captured \<open>retryCount\<close> is the
  one the render read.
\<close>

definition handleRetry ::
  "string \<Rightarrow> response list \<Rightarrow> results_state \<Rightarrow> results_state \<times> effect list" where
  "handleRetry jobId rsps st =
     fetchResults jobId (rs_retryCount st) rsps
       (st\<lparr>rs_loading := True, rs_error := None, rs_retryCount := 0\<rparr>)"

datatype icon = ClockIcon string | CheckCircleIcon string | ExclamationCircleIcon string

definition getStatusIcon :: "string \<Rightarrow> icon" where
  "getStatusIcon status =
     (if status = ''processing'' then ClockIcon ''h-5 w-5 text-yellow-500 animate-spin''
      else if status = ''completed'' then CheckCircleIcon ''h-5 w-5 text-green-500''
      else if status = ''failed'' then ExclamationCircleIcon ''h-5 w-5 text-red-500''
      else ClockIcon ''h-5 w-5 text-gray-500'')"

definition getStatusText :: "string \<Rightarrow> string" where
  "getStatusText status =
     (if status = ''processing'' then ''Processing document...''
      else if status = ''completed'' then ''Processing completed''
      else if status = ''failed'' then ''Processing failed''
      else ''Unknown status'')"

text \<open>
  What the component returns, by its chain of early returns.  The main view is
  reduced to its header: the status icon and the status text.
\<close>

datatype view =
    InvalidJobId
  | ErrorView string
  | LoadingView
  | MainView icon string

definition render :: "string \<Rightarrow> results_state \<Rightarrow> view" where
  "render jobId st =
     (if jobId = [] then InvalidJobId
      else if truthy (rs_error st) then ErrorView (the (rs_error st))
      else (case rs_job st of
              None \<Rightarrow> LoadingView
            | Some job \<Rightarrow>
                if rs_loading st then LoadingView
                else MainView (getStatusIcon (jd_status job)) (getStatusText (jd_status job))))"

text \<open>
  ASCII upper-casing, for \<open>format.toUpperCase()\<close> on the export kinds.
\<close>

definition toUpperChar :: "char \<Rightarrow> char" where
  "toUpperChar c =
     (let n = (of_char c :: nat) in if 97 \<le> n \<and> n \<le> 122 then char_of (n - 32) else c)"

definition toUpperCase :: "string \<Rightarrow> string" where
  "toUpperCase s = map toUpperChar s"

definition exportPath :: "string \<Rightarrow> string \<Rightarrow> string" where
  "exportPath jobId format = ''/api/export/'' @ jobId @ ''?type='' @ format"

text \<open>
  \<open>handleExport\<close>: the answer to the export request is \<open>Inr\<close> the returned bytes or
  \<open>Inl\<close> the error detail.  \<open>substring(0, 8)\<close> is \<open>take 8\<close>.
\<close>

definition handleExport :: "string \<Rightarrow> string \<Rightarrow> string option + blob \<Rightarrow> effect list" where
  "handleExport jobId format answer =
     ToastLoading (''Preparing '' @ toUpperCase format @ '' export...'') #
     HttpPost (exportPath jobId format) EmptyBody #
     (case answer of
        Inr bytes \<Rightarrow>
          [Download (''sof_events_'' @ take 8 jobId @ ''.'' @ format) bytes,
           ToastDismiss,
           ToastSuccess (toUpperCase format @ '' file downloaded successfully!'')]
      | Inl detail \<Rightarrow>
          [ToastDismiss,
           ConsoleError ''Export failed:'',
           ToastError (''Export failed: '' @ orDefault detail ''Unknown error'')])"

fun downloads :: "effect list \<Rightarrow> (string \<times> blob) list" where
  "downloads [] = []"
| "downloads (Download name bytes # es) = (name, bytes) # downloads es"
| "downloads (e # es) = downloads es"

section \<open>Result table (the ResultTable component)\<close>

text \<open>
  The component's chain of early returns: the empty-list card, then the warning card
  when some element of \<open>events\<close> is a validation warning (by its name or its
  severity), then the table.  The warning card shows the description and, when truthy,
  the suggestion of the first such element.  The table itself (filters, sorting, rows)
  is not modelled.
\<close>

definition isWarningEvent :: "event \<Rightarrow> bool" where
  "isWarningEvent e =
     (ev_event e = ''Document Validation Warning'' \<or> ev_severity e = Some ''Warning'')"

datatype table_view =
    NoEventsFound
  | WarningCard "string option" "string option"
  | EventsTable

definition ResultTable :: "event list \<Rightarrow> table_view" where
  "ResultTable events =
     (if events = [] then NoEventsFound
      else if list_ex isWarningEvent events then
        (case find isWarningEvent events of
           Some warningEvent \<Rightarrow>
             WarningCard (ev_description warningEvent)
               (if truthy (ev_suggestion warningEvent) then ev_suggestion warningEvent else None)
         | None \<Rightarrow> EventsTable)
      else EventsTable)"

section \<open>Timeline visualisation (components/Timeline.jsx)\<close>

text \<open>
  The component uses three things it does not define: the \<open>Date\<close> constructor on a
  string, the local time zone, and \<open>format\<close> of date-fns.  They are parameters of the
  model.  \<open>dl_parse s\<close> is the time value (milliseconds since the epoch) of
  \<open>new Date(s)\<close>, or \<open>None\<close> for an Invalid Date; \<open>isValid\<close> holds exactly of
  the former.  \<open>dl_tza t\<close> is the local time zone adjustment at time value \<open>t\<close>, in
  milliseconds.  \<open>dl_format t pattern\<close> is \<open>format(date, pattern)\<close>.
\<close>

record date_lib =
  dl_parse :: "string \<Rightarrow> int option"
  dl_tza :: "int \<Rightarrow> int"
  dl_format :: "int \<Rightarrow> string \<Rightarrow> string"

text \<open>
  One entry of \<open>processedEvents\<close>.  A \<open>Date\<close> is its time value.  The duration is
  a number of hours; it is modelled as the exact quotient.
\<close>

record timeline_entry =
  te_id :: nat
  te_event :: string
  te_start :: int
  te_end :: int
  te_startTime :: int
  te_endTime :: int
  te_duration :: rat
  te_location :: string
  te_description :: string
  te_formattedStart :: string
  te_formattedEnd :: string

text \<open>
  The callback of \<open>.map\<close>: \<open>None\<close> is the \<open>null\<close> it returns for an invalid
  start.  It only ever runs on events whose start is truthy (the \<open>.filter\<close> before
  it), so the first case is never taken.
\<close>

definition processEvent :: "date_lib \<Rightarrow> event \<Rightarrow> nat \<Rightarrow> timeline_entry option" where
  "processEvent L event index =
     (case ev_start event of
        None \<Rightarrow> None
      | Some s \<Rightarrow>
          (case dl_parse L s of
             None \<Rightarrow> None
           | Some startDate \<Rightarrow>
               (let endDate =
                      (if truthy (ev_end event) then
                         (case dl_parse L (the (ev_end event)) of
                            None \<Rightarrow> startDate
                          | Some d \<Rightarrow> d)
                       else startDate);
                    duration =
                      (if endDate > startDate
                       then of_int (endDate - startDate) / (1000 * 60 * 60)
                       else (0::rat))
                in Some \<lparr>te_id = index,
                         te_event = ev_event event,
                         te_start = startDate,
                         te_end = endDate,
                         te_startTime = startDate,
                         te_endTime = endDate,
                         te_duration = max duration (1 / 2),
                         te_location = orDefault (ev_location event) ''Unknown'',
                         te_description = orDefault (ev_description event) [],
                         te_formattedStart = dl_format L startDate ''MMM dd, HH:mm'',
                         te_formattedEnd = dl_format L endDate ''MMM dd, HH:mm''\<rparr>)))"

text \<open>\<open>.filter(Boolean)\<close> on an array of entries and \<open>null\<close>s.\<close>

primrec filterBoolean :: "'a option list \<Rightarrow> 'a list" where
  "filterBoolean [] = []"
| "filterBoolean (x # xs) = (case x of None \<Rightarrow> filterBoolean xs | Some y \<Rightarrow> y # filterBoolean xs)"

text \<open>
  \<open>timelineData\<close>.  \<open>Array.prototype.sort\<close> is stable, and the comparator
  \<open>a.startTime - b.startTime\<close> orders by the integer time value, so the result is the
  stable sort by \<open>startTime\<close>.
\<close>

definition timelineData :: "date_lib \<Rightarrow> event list \<Rightarrow> timeline_entry list" where
  "timelineData L events =
     (if events = [] then []
      else sort_key te_startTime
             (filterBoolean
                (map (\<lambda>(index, event). processEvent L event index)
                   (enumerate 0 (filter (\<lambda>event. truthy (ev_start event)) events)))))"

text \<open>
  \<open>Date.prototype.getHours\<close>: the hour of the local time,
  \<open>floor(LocalTime(t) / msPerHour) mod 24\<close>.
\<close>

definition getHours :: "date_lib \<Rightarrow> int \<Rightarrow> nat" where
  "getHours L t = nat (((t + dl_tza L t) div 3600000) mod 24)"

text \<open>\<open>hourCounts[hour] || 0\<close> on the counting object.\<close>

definition countOf :: "(nat \<rightharpoonup> nat) \<Rightarrow> nat \<Rightarrow> nat" where
  "countOf hourCounts hour = (case hourCounts hour of None \<Rightarrow> 0 | Some c \<Rightarrow> c)"

text \<open>The callback of \<open>timelineData.forEach\<close>, on the counting object.\<close>

definition countEvent :: "date_lib \<Rightarrow> (nat \<rightharpoonup> nat) \<Rightarrow> timeline_entry \<Rightarrow> (nat \<rightharpoonup> nat)" where
  "countEvent L counts entry =
     (let hour = getHours L (te_start entry)
      in counts(hour \<mapsto> countOf counts hour + 1))"

definition hourCounts :: "date_lib \<Rightarrow> timeline_entry list \<Rightarrow> (nat \<rightharpoonup> nat)" where
  "hourCounts L entries = foldl (countEvent L) Map.empty entries"







text \<open>
  The duration text of one rendered entry: \<open>Hours d\<close> stands for the text
  \<open>d.toFixed(1)\<close> followed by \<open>h\<close>, \<open>Instant\<close> for the other branch of
  \<open>event.duration > 0 ? ... : 'Instant'\<close>.
\<close>

datatype duration_label = Hours rat | Instant

definition durationLabel :: "timeline_entry \<Rightarrow> duration_label" where
  "durationLabel entry = (if te_duration entry > 0 then Hours (te_duration entry) else Instant)"

section \<open>Upload form (the UploadForm component)\<close>

record upload_state =
  us_uploading :: bool
  us_uploadProgress :: nat

definition maxSize :: nat where
  "maxSize = 10 * 1024 * 1024"

text \<open>
  \<open>uploadFile\<close>: the answer to the upload request is \<open>Inr job_id\<close> or \<open>Inl\<close> the
  error detail.  The returned state is the one after the \<open>finally\<close> block; the progress
  callbacks in between are not modelled.
\<close>

definition uploadFile ::
  "upload_file \<Rightarrow> string option + string \<Rightarrow> upload_state \<Rightarrow> upload_state \<times> effect list" where
  "uploadFile file answer st =
     (st\<lparr>us_uploading := False, us_uploadProgress := 0\<rparr>,
      HttpPost ''/api/upload'' (FormFile file) #
      (case answer of
         Inr job_id \<Rightarrow>
           [ToastSuccess ''File uploaded successfully! Processing started.'',
            Navigate (''/results/'' @ job_id)]
       | Inl detail \<Rightarrow>
           [ConsoleError ''Upload failed:'',
            ToastError (orDefault detail ''Upload failed. Please try again.'')]))"

definition onDrop ::
  "upload_file list \<Rightarrow> string option + string \<Rightarrow> upload_state \<Rightarrow> upload_state \<times> effect list" where
  "onDrop acceptedFiles answer st =
     (case acceptedFiles of
        [] \<Rightarrow> (st, [])
      | file # others \<Rightarrow>
          if f_size file > 10 * 1024 * 1024
          then (st, [ToastError ''File size must be less than 10MB''])
          else uploadFile file answer st)"

text \<open>
  The form hands \<open>onDrop\<close>, its \<open>accept\<close> table and \<open>maxSize\<close> to \<open>useDropzone\<close> of
  react-dropzone, with \<open>multiple: false\<close>.  What the dropzone does with one chosen
  file, before it calls \<open>onDrop\<close>, is library code; it is modelled here by the
  library's rules, step by step.
\<close>

definition toLowerChar :: "char \<Rightarrow> char" where
  "toLowerChar c =
     (let n = (of_char c :: nat) in if 65 \<le> n \<and> n \<le> 90 then char_of (n + 32) else c)"

definition toLowerCase :: "string \<Rightarrow> string" where
  "toLowerCase s = map toLowerChar s"

definition endsWith :: "string \<Rightarrow> string \<Rightarrow> bool" where
  "endsWith s suffix =
     (length suffix \<le> length s \<and> drop (length s - length suffix) s = suffix)"

text \<open>\<open>name.split('.').pop()\<close>: the part of the name after its last dot.\<close>

definition lastSegment :: "string \<Rightarrow> string" where
  "lastSegment name = rev (takeWhile (\<lambda>c. c \<noteq> CHR ''.'') (rev name))"

text \<open>
  First the dropzone reads the file through its file selector, which gives a file
  that has an extension but an empty \<open>type\<close> the type its table of common MIME types
  lists for the lower-cased extension, if any.  That table is the parameter
  \<open>commonMimeTypes\<close>.
\<close>

definition withMimeType :: "(string \<Rightarrow> string option) \<Rightarrow> upload_file \<Rightarrow> upload_file" where
  "withMimeType commonMimeTypes file =
     (if CHR ''.'' \<in> set (f_name file) \<and> f_type file = [] then
        (case commonMimeTypes (toLowerCase (lastSegment (f_name file))) of
           Some t \<Rightarrow> file\<lparr>f_type := t\<rparr>
         | None \<Rightarrow> file)
      else file)"

text \<open>
  The \<open>accept\<close> table of the form, and the list the dropzone makes of it: every key
  followed by its extensions.
\<close>

definition acceptTable :: "(string \<times> string list) list" where
  "acceptTable =
     [(''application/pdf'', [''.pdf'']),
      (''application/vnd.openxmlformats-officedocument.wordprocessingml.document'', [''.docx'']),
      (''application/msword'', [''.doc'']),
      (''image/*'', [''.png'', ''.jpg'', ''.jpeg'', ''.tiff''])]"

definition acceptAttr :: "string list" where
  "acceptAttr = concat (map (\<lambda>(mimeType, extensions). mimeType # extensions) acceptTable)"

text \<open>
  The part of a MIME type before its first slash (the library removes the slash and
  what follows it).
\<close>

definition baseType :: "string \<Rightarrow> string" where
  "baseType mime = takeWhile (\<lambda>c. c \<noteq> CHR ''/'') mime"

text \<open>
  The matching rule for one entry of the list: an entry that starts with a dot is
  compared with the end of the lower-cased file name; an entry that ends in \<open>/*\<close> with
  the part of the lower-cased type before the slash; any other entry with the whole
  lower-cased type.  (The library also trims the entry; the entries here have no
  spaces.)
\<close>

definition matchesEntry :: "upload_file \<Rightarrow> string \<Rightarrow> bool" where
  "matchesEntry file entry =
     (let validType = toLowerCase entry in
      if validType \<noteq> [] \<and> hd validType = CHR ''.''
      then endsWith (toLowerCase (f_name file)) validType
      else if endsWith validType ''/*''
      then baseType (toLowerCase (f_type file)) = baseType validType
      else toLowerCase (f_type file) = validType)"

definition accepts :: "upload_file \<Rightarrow> string list \<Rightarrow> bool" where
  "accepts file acceptedFiles = list_ex (matchesEntry file) acceptedFiles"

text \<open>
  The dropzone's two checks on a file: the type check, which passes a file of type
  \<open>application/x-moz-file\<close> without looking at the list, and the size check against
  \<open>maxSize\<close> (the minimum size is \<open>0\<close>).
\<close>

definition fileAccepted :: "upload_file \<Rightarrow> bool" where
  "fileAccepted file = (f_type file = ''application/x-moz-file'' \<or> accepts file acceptAttr)"

definition fileMatchSize :: "upload_file \<Rightarrow> bool" where
  "fileMatchSize file = (f_size file \<le> maxSize)"

text \<open>
  \<open>dropFile\<close> is the form's reaction to one chosen file: the dropzone calls \<open>onDrop\<close>
  with the file as the only accepted file when it passes both checks, and with no
  accepted file otherwise.  Rejected files go to a second argument that this \<open>onDrop\<close>
  does not take, and the form registers no rejection callback.
\<close>

definition dropFile ::
  "(string \<Rightarrow> string option) \<Rightarrow> upload_file \<Rightarrow> string option + string \<Rightarrow> upload_state
     \<Rightarrow> upload_state \<times> effect list" where
  "dropFile commonMimeTypes chosen answer st =
     (let file = withMimeType commonMimeTypes chosen in
      onDrop (if fileAccepted file \<and> fileMatchSize file then [file] else []) answer st)"

fun isUpload :: "effect \<Rightarrow> bool" where
  "isUpload (HttpPost path b) = (path = ''/api/upload'')"
| "isUpload e = False"

fun isErrorMessage :: "effect \<Rightarrow> bool" where
  "isErrorMessage (ToastError m) = True"
| "isErrorMessage e = False"

section \<open>Job lifecycle (JobManager)\<close>

text \<open>
  Modelled from the spec: the JobManager and its pipeline worker are server code that is
  not among the sources; only the client that reads their jobs is.  The job record and
  the transition table below follow sections 3 and 4.5 of the specification.
\<close>

datatype job_status = Queued | Processing | Completed | Failed

record validation_warning =
  vw_description :: string
  vw_suggestion :: string

record job =
  j_job_id :: string
  j_owner :: string
  j_filename :: string
  j_content_type :: string
  j_status :: job_status
  j_created_at :: nat
  j_updated_at :: nat
  j_events :: "event list"
  j_error :: "string option"
  j_validation_warning :: "validation_warning option"

text \<open>
  Modelled from the spec: the happenings of the transition table of section 4.5 (the
  worker picks the job up; the validator reports a warning; extraction succeeds; a
  stage raises an unrecoverable error; the extraction service fails after the retry).
\<close>

datatype pipeline_event =
    WorkerPickedUp
  | ValidatorWarning validation_warning
  | ExtractionSucceeds "event list"
  | StageError string
  | ExtractionServiceError

text \<open>
  Modelled from the spec: \<open>submit\<close> persists a job in state queued (section 4.5),
  with no events, no error and no warning yet (section 3).
\<close>

definition submit :: "string \<Rightarrow> string \<Rightarrow> string \<Rightarrow> string \<Rightarrow> nat \<Rightarrow> job" where
  "submit job_id owner filename content_type now =
     \<lparr>j_job_id = job_id, j_owner = owner, j_filename = filename,
      j_content_type = content_type, j_status = Queued,
      j_created_at = now, j_updated_at = now,
      j_events = [], j_error = None, j_validation_warning = None\<rparr>"

text \<open>
  Modelled from the spec: the transition table of section 4.5, one equation per row;
  \<open>updated_at\<close> is refreshed on every transition (section 3).  \<open>None\<close>: the table has
  no row for this state and happening (completed and failed are terminal).
\<close>

fun transition :: "nat \<Rightarrow> job \<Rightarrow> pipeline_event \<Rightarrow> job option" where
  "transition now j WorkerPickedUp =
     (if j_status j = Queued
      then Some (j\<lparr>j_status := Processing, j_updated_at := now\<rparr>) else None)"
| "transition now j (ValidatorWarning w) =
     (if j_status j = Processing
      then Some (j\<lparr>j_status := Completed, j_updated_at := now,
                   j_events := [], j_validation_warning := Some w\<rparr>) else None)"
| "transition now j (ExtractionSucceeds evs) =
     (if j_status j = Processing
      then Some (j\<lparr>j_status := Completed, j_updated_at := now, j_events := evs\<rparr>) else None)"
| "transition now j (StageError msg) =
     (if j_status j = Processing
      then Some (j\<lparr>j_status := Failed, j_updated_at := now, j_error := Some msg\<rparr>) else None)"
| "transition now j ExtractionServiceError =
     (if j_status j = Processing
      then Some (j\<lparr>j_status := Failed, j_updated_at := now,
                   j_error := Some ''extraction service unavailable''\<rparr>) else None)"

text \<open>
  Modelled from the spec: the life of one job, as the happenings reach it in order,
  each with its time; a happening the table has no row for leaves the job as it is.
\<close>

fun runJob :: "job \<Rightarrow> (nat \<times> pipeline_event) list \<Rightarrow> job" where
  "runJob j [] = j"
| "runJob j ((now, ev) # rest) =
     (case transition now j ev of None \<Rightarrow> runJob j rest | Some j' \<Rightarrow> runJob j' rest)"

section \<open>Vocabulary of the claims and sample inputs\<close>

text \<open>
  The start of an event as a time value, when the field is present and parses to a
  valid date.
\<close>

definition startTimestamp :: "date_lib \<Rightarrow> event \<Rightarrow> int option" where
  "startTimestamp L e = (case ev_start e of None \<Rightarrow> None | Some s \<Rightarrow> dl_parse L s)"

definition validStart :: "date_lib \<Rightarrow> event \<Rightarrow> bool" where
  "validStart L e = (startTimestamp L e \<noteq> None)"

text \<open>
  The end of an event as a time value; \<open>None\<close> when the field is missing, empty or
  does not parse.
\<close>

definition endTimestamp :: "date_lib \<Rightarrow> event \<Rightarrow> int option" where
  "endTimestamp L e =
     (case ev_end e of None \<Rightarrow> None | Some s \<Rightarrow> (if s = [] then None else dl_parse L s))"

definition notAfter :: "int option \<Rightarrow> int \<Rightarrow> bool" where
  "notAfter endTime startTime = (case endTime of None \<Rightarrow> True | Some d \<Rightarrow> d \<le> startTime)"

definition sampleJob :: "string \<Rightarrow> job_data" where
  "sampleJob status =
     \<lparr>jd_status = status, jd_filename = ''sof.pdf'', jd_events = None, jd_error = None\<rparr>"

text \<open>
  A date library for the examples: it knows four ISO strings of 1 March 2024 (UTC) and
  takes every other string for an invalid date; the local zone is UTC.
\<close>

definition demoDates :: date_lib where
  "demoDates =
     \<lparr>dl_parse = (\<lambda>s. if s = ''2024-03-01T06:00:00Z'' then Some 1709272800000
                       else if s = ''2024-03-01T08:30:00Z'' then Some 1709281800000
                       else if s = ''2024-03-01T12:00:00Z'' then Some 1709294400000
                       else if s = ''2024-03-01T18:45:00Z'' then Some 1709318700000
                       else None),
      dl_tza = (\<lambda>t. 0),
      dl_format = (\<lambda>t pattern. [])\<rparr>"

definition sampleEvent :: "string \<Rightarrow> string option \<Rightarrow> string option \<Rightarrow> event" where
  "sampleEvent name start end =
     \<lparr>ev_event = name, ev_start = start, ev_end = end, ev_location = None,
      ev_description = None, ev_severity = None, ev_suggestion = None\<rparr>"

definition demoEvents :: "event list" where
  "demoEvents =
     [sampleEvent ''Departure'' (Some ''2024-03-01T18:45:00Z'') None,
      sampleEvent ''Pilot On Board'' (Some ''soon'') None,
      sampleEvent ''Loading Commenced'' (Some ''2024-03-01T08:30:00Z'')
        (Some ''2024-03-01T12:00:00Z''),
      sampleEvent ''Anchored'' None (Some ''2024-03-01T12:00:00Z''),
      sampleEvent ''Arrival'' (Some ''2024-03-01T06:00:00Z'') (Some ''2024-03-01T06:00:00Z'')]"

text \<open>
  The formats the accept table passes, spelled out: one of the three document types,
  any image type, or a name that ends in one of the seven listed extensions (or the
  type the dropzone always passes).
\<close>

definition formatAccepted :: "upload_file \<Rightarrow> bool" where
  "formatAccepted file =
     (f_type file = ''application/x-moz-file''
      \<or> toLowerCase (f_type file) = ''application/pdf''
      \<or> toLowerCase (f_type file)
          = ''application/vnd.openxmlformats-officedocument.wordprocessingml.document''
      \<or> toLowerCase (f_type file) = ''application/msword''
      \<or> baseType (toLowerCase (f_type file)) = ''image''
      \<or> list_ex (endsWith (toLowerCase (f_name file)))
           [''.pdf'', ''.docx'', ''.doc'', ''.png'', ''.jpg'', ''.jpeg'', ''.tiff''])"

text \<open>A few lines of the file selector's table of common MIME types.\<close>

definition sampleMimeTypes :: "string \<Rightarrow> string option" where
  "sampleMimeTypes ext =
     (if ext = ''pdf'' then Some ''application/pdf''
      else if ext = ''gif'' then Some ''image/gif''
      else if ext = ''txt'' then Some ''text/plain''
      else None)"

definition notesTxt :: upload_file where
  "notesTxt = \<lparr>f_name = ''notes.txt'', f_type = ''text/plain'', f_size = 2048\<rparr>"

definition reportPdf :: upload_file where
  "reportPdf = \<lparr>f_name = ''sof.pdf'', f_type = ''application/pdf'', f_size = 1048576\<rparr>"

definition chartGif :: upload_file where
  "chartGif = \<lparr>f_name = ''chart.gif'', f_type = ''image/gif'', f_size = 4096\<rparr>"

definition idleUpload :: upload_state where
  "idleUpload = \<lparr>us_uploading = False, us_uploadProgress = 0\<rparr>"

definition sampleWarning :: validation_warning where
  "sampleWarning =
     \<lparr>vw_description = ''no timestamps detected'',
      vw_suggestion = ''upload a Statement of Facts''\<rparr>"

text \<open>
  What every job keeps through its life: before it is completed it has no events and
  no warning, and a job with a warning is completed and has no events.
\<close>

definition jobInvariant :: "job \<Rightarrow> bool" where
  "jobInvariant j =
     ((j_status j \<noteq> Completed \<longrightarrow> j_events j = [] \<and> j_validation_warning j = None)
      \<and> (j_validation_warning j \<noteq> None \<longrightarrow> j_status j = Completed \<and> j_events j = []))"

section \<open>Results page: polling\<close>

lemma fetchResults_http:
  "e \<in> set (snd (fetchResults jobId retryCount rsps st)) \<Longrightarrow> isHttp e
     \<Longrightarrow> e = HttpGet (resultPath jobId)"
proof (induction jobId retryCount rsps st rule: fetchResults.induct)
  case (1 jobId retryCount st)
  then show ?case by simp
next
  case (2 jobId retryCount detail rest st)
  then show ?case by auto
next
  case (3 jobId retryCount data rest st)
  show ?case
  proof (cases "jd_status data = ''processing'' \<and> retryCount < maxRetries")
    case True
    with 3 show ?thesis by (auto simp: Let_def split: prod.splits)
  next
    case False
    with "3.prems" show ?thesis by (auto simp: Let_def split: if_splits)
  qed
qed

lemma fetchResults_nonempty:
  "snd (fetchResults jobId retryCount rsps st) \<noteq> []"
  by (induction jobId retryCount rsps st rule: fetchResults.induct)
     (auto simp: Let_def split: prod.splits)

lemma fetchResults_first:
  "hd (snd (fetchResults jobId retryCount rsps st)) = HttpGet (resultPath jobId)"
  by (induction jobId retryCount rsps st rule: fetchResults.induct)
     (auto simp: Let_def split: prod.splits)

lemma fetchResults_no_upload:
  "\<not> list_ex isUpload (snd (fetchResults jobId retryCount rsps st))"
  by (induction jobId retryCount rsps st rule: fetchResults.induct)
     (auto simp: Let_def split: prod.splits)

lemma fetchResults_request_bound:
  "length (filter isHttp (snd (fetchResults jobId retryCount rsps st))) \<le> Suc (length rsps)"
  by (induction jobId retryCount rsps st rule: fetchResults.induct)
     (auto simp: Let_def split: prod.splits)

lemma fetchResults_stops:
  "jd_status d \<noteq> ''processing'' \<Longrightarrow>
   fetchResults jobId retryCount (pre @ Inr d # post) st
     = fetchResults jobId retryCount (pre @ [Inr d]) st"
  by (induction jobId retryCount pre st rule: fetchResults.induct)
     (auto simp: Let_def split: prod.splits)

lemma fetchResults_timer:
  "SetTimeout 2000 \<in> set (snd (fetchResults jobId retryCount (r # rest) st)) \<longleftrightarrow>
     (\<exists>d. r = Inr d \<and> jd_status d = ''processing'' \<and> retryCount < maxRetries)"
  by (cases r) (auto simp: Let_def split: prod.splits)

text \<open>
  A server that answers processing \<open>n\<close> times to a closure whose captured count is
  below the bound: every answer sets a timer, and request \<open>n + 1\<close> is sent.
\<close>

lemma fetchResults_processing:
  assumes "jd_status d = ''processing''" and "retryCount < maxRetries"
  shows "fetchResults jobId retryCount (replicate n (Inr d)) st =
     (st\<lparr>rs_error := None, rs_job := (if n = 0 then rs_job st else Some d),
         rs_retryCount := rs_retryCount st + n\<rparr>,
      concat (replicate n [HttpGet (resultPath jobId), SetTimeout 2000])
        @ [HttpGet (resultPath jobId)])"
proof (induction n arbitrary: st)
  case 0
  show ?case by simp
next
  case (Suc n)
  show ?case using assms by (simp add: Suc.IH Let_def)
qed

lemma requests_of_polling:
  "filter isHttp (concat (replicate n [HttpGet p, SetTimeout t]) @ [HttpGet p])
     = replicate (Suc n) (HttpGet p)"
  by (induction n) simp_all

lemma timers_of_polling:
  "length (filter (\<lambda>e. e = SetTimeout t) (concat (replicate n [HttpGet p, SetTimeout t]) @ [HttpGet p]))
     = n"
  by (induction n) simp_all

text \<open>
  C1.  The claim: the polling loop performs at most 30 retries, and at the bound it
  stops with the message that processing is taking longer than expected.  The code
  compares the bound with the \<open>retryCount\<close> captured by the closure that the mount
  effect started, which stays \<open>0\<close>, so the loop has no bound.  Evaluated at a job that
  is processing for 40 consecutive answers: 41 requests are sent (40 retries), 40
  timers are set, the state cell has reached 40, no error is set and the page is
  still loading.
\<close>

theorem C1_polling_exceeds_maxRetries:
  "filter isHttp (snd (mount ''job-0001'' (replicate 40 (Inr (sampleJob ''processing'')))))
     = replicate 41 (HttpGet (resultPath ''job-0001''))
   \<and> length (filter (\<lambda>e. e = SetTimeout 2000)
        (snd (mount ''job-0001'' (replicate 40 (Inr (sampleJob ''processing'')))))) = 40
   \<and> rs_retryCount (fst (mount ''job-0001'' (replicate 40 (Inr (sampleJob ''processing''))))) = 40
   \<and> rs_error (fst (mount ''job-0001'' (replicate 40 (Inr (sampleJob ''processing''))))) = None
   \<and> rs_loading (fst (mount ''job-0001'' (replicate 40 (Inr (sampleJob ''processing'')))))"
proof -
  have run: "mount ''job-0001'' (replicate 40 (Inr (sampleJob ''processing''))) =
     (initialState\<lparr>rs_error := None, rs_job := Some (sampleJob ''processing''),
         rs_retryCount := 40\<rparr>,
      concat (replicate 40 [HttpGet (resultPath ''job-0001''), SetTimeout 2000])
        @ [HttpGet (resultPath ''job-0001'')])"
    by (simp add: mount_def fetchResults_processing sampleJob_def maxRetries_def
        initialState_def)
  have req: "filter isHttp (concat (replicate 40 [HttpGet (resultPath ''job-0001''), SetTimeout 2000])
        @ [HttpGet (resultPath ''job-0001'')]) = replicate (Suc 40) (HttpGet (resultPath ''job-0001''))"
    by (rule requests_of_polling)
  have tim: "length (filter (\<lambda>e. e = SetTimeout 2000)
        (concat (replicate 40 [HttpGet (resultPath ''job-0001''), SetTimeout 2000])
        @ [HttpGet (resultPath ''job-0001'')])) = 40"
    by (rule timers_of_polling)
  have n: "Suc 40 = 41" by simp
  show ?thesis
    unfolding run snd_conv fst_conv req tim n by (simp add: initialState_def)
qed

lemma mount_timer:
  "jobId \<noteq> [] \<Longrightarrow>
   SetTimeout 2000 \<in> set (snd (mount jobId (r # rest))) \<longleftrightarrow>
     (\<exists>d. r = Inr d \<and> jd_status d = ''processing'')"
  by (simp add: mount_def fetchResults_timer initialState_def maxRetries_def)

lemma fetchResults_repoll:
  "jd_status d = ''processing'' \<Longrightarrow> retryCount < maxRetries \<Longrightarrow>
   snd (fetchResults jobId retryCount (Inr d # rest) st)
     = HttpGet (resultPath jobId) # SetTimeout 2000
       # snd (fetchResults jobId retryCount rest
               (st\<lparr>rs_error := None, rs_job := Some d,
                   rs_retryCount := Suc (rs_retryCount st)\<rparr>))"
  by (simp add: Let_def split: prod.splits)

lemma polling_one_more:
  "concat (replicate (Suc n) [a, b]) @ [a] = (concat (replicate n [a, b]) @ [a]) @ [b, a]"
  by (induction n) simp_all

text \<open>
  C2.  The claim: a re-poll is set up if and only if the returned status is processing
  and the retry bound is not exceeded, and a completed or failed answer ends the
  polling.  The code ends the polling at a completed and at a failed answer (the last
  two equations below: nothing follows the request that got such an answer).  But the
  bound is never exceeded for the code: it is tested on the count the closure captured
  (see C1).  Evaluated at a job that is processing for 31 consecutive answers: after
  the 30th answer the retry counter is 30, the bound; the 31st answer still sets the
  timer and the follow-up request is sent.
\<close>

theorem C2_repoll_past_bound:
  "maxRetries = 30
   \<and> rs_retryCount (fst (mount ''job-0001'' (replicate 30 (Inr (sampleJob ''processing''))))) = 30
   \<and> snd (mount ''job-0001'' (replicate 31 (Inr (sampleJob ''processing''))))
       = snd (mount ''job-0001'' (replicate 30 (Inr (sampleJob ''processing''))))
         @ [SetTimeout 2000, HttpGet (resultPath ''job-0001'')]
   \<and> snd (mount ''job-0001''
        [Inr (sampleJob ''processing''), Inr (sampleJob ''completed''),
         Inr (sampleJob ''processing'')])
       = [HttpGet (resultPath ''job-0001''), SetTimeout 2000, HttpGet (resultPath ''job-0001''),
          ToastSuccess ''Document processed successfully!'']
   \<and> snd (mount ''job-0001''
        [Inr (sampleJob ''processing''), Inr (sampleJob ''failed''),
         Inr (sampleJob ''processing'')])
       = [HttpGet (resultPath ''job-0001''), SetTimeout 2000, HttpGet (resultPath ''job-0001'')]"
proof -
  have p: "jd_status (sampleJob ''processing'') = ''processing''"
    by (simp add: sampleJob_def)
  have z: "rs_retryCount initialState < maxRetries"
    by (simp add: initialState_def maxRetries_def)
  have run: "\<And>n. mount ''job-0001'' (replicate n (Inr (sampleJob ''processing''))) =
     (initialState\<lparr>rs_error := None,
         rs_job := (if n = 0 then rs_job initialState else Some (sampleJob ''processing'')),
         rs_retryCount := rs_retryCount initialState + n\<rparr>,
      concat (replicate n [HttpGet (resultPath ''job-0001''), SetTimeout 2000])
        @ [HttpGet (resultPath ''job-0001'')])"
    using fetchResults_processing [OF p z] by (simp add: mount_def)
  have a: "maxRetries = 30" by (simp add: maxRetries_def)
  have b: "rs_retryCount (fst (mount ''job-0001'' (replicate 30 (Inr (sampleJob ''processing'')))))
      = 30"
    unfolding run by (simp add: initialState_def)
  have n31: "(31::nat) = Suc 30" by simp
  have c: "snd (mount ''job-0001'' (replicate 31 (Inr (sampleJob ''processing''))))
       = snd (mount ''job-0001'' (replicate 30 (Inr (sampleJob ''processing''))))
         @ [SetTimeout 2000, HttpGet (resultPath ''job-0001'')]"
    unfolding run snd_conv n31 by (rule polling_one_more)
  have d: "snd (mount ''job-0001''
        [Inr (sampleJob ''processing''), Inr (sampleJob ''completed''),
         Inr (sampleJob ''processing'')])
       = [HttpGet (resultPath ''job-0001''), SetTimeout 2000, HttpGet (resultPath ''job-0001''),
          ToastSuccess ''Document processed successfully!'']"
    by (simp add: mount_def initialState_def maxRetries_def sampleJob_def Let_def)
  have e: "snd (mount ''job-0001''
        [Inr (sampleJob ''processing''), Inr (sampleJob ''failed''),
         Inr (sampleJob ''processing'')])
       = [HttpGet (resultPath ''job-0001''), SetTimeout 2000, HttpGet (resultPath ''job-0001'')]"
    by (simp add: mount_def initialState_def maxRetries_def sampleJob_def Let_def)
  show ?thesis using a b c d e by blast
qed

section \<open>Results page: status text and icon\<close>

text \<open>
  C10.  For any job status other than processing, completed and failed (the queued
  state of the job lifecycle is one), the status text is Unknown status and the icon
  is the gray clock, and the page that has fetched such a job, with no error and
  loading finished, renders exactly these in its main view.
\<close>

theorem C10_unknown_status:
  assumes "status \<notin> {''processing'', ''completed'', ''failed''}"
  shows "getStatusText status = ''Unknown status''
       \<and> getStatusIcon status = ClockIcon ''h-5 w-5 text-gray-500''
       \<and> (jobId \<noteq> [] \<longrightarrow>
            render jobId (fst (mount jobId [Inr (job\<lparr>jd_status := status\<rparr>)]))
              = MainView (ClockIcon ''h-5 w-5 text-gray-500'') ''Unknown status'')"
  using assms
  by (simp add: getStatusText_def getStatusIcon_def render_def mount_def initialState_def
      truthy_def)

theorem C10_unknown_status_witness:
  "''queued'' \<notin> {''processing'', ''completed'', ''failed''}
   \<and> getStatusText ''queued'' = ''Unknown status''
   \<and> getStatusIcon ''queued'' = ClockIcon ''h-5 w-5 text-gray-500''
   \<and> render ''job-0001''
        (fst (mount ''job-0001''
           [Inr \<lparr>jd_status = ''queued'', jd_filename = ''sof.pdf'',
                 jd_events = None, jd_error = None\<rparr>]))
        = MainView (ClockIcon ''h-5 w-5 text-gray-500'') ''Unknown status''"
  using C10_unknown_status [of "''queued''" "''job-0001''"
      "\<lparr>jd_status = ''queued'', jd_filename = ''sof.pdf'', jd_events = None, jd_error = None\<rparr>"]
  by simp

section \<open>Results page: retry and export\<close>

text \<open>
  C5 as stated: the retry action offered for a failed job resubmits the document as a
  new job.  It does not: on the page of a failed job, \<open>handleRetry\<close> sends one request,
  the status query for the same job, and no upload.
\<close>

theorem C5_retry_resubmits_counterexample:
  "snd (handleRetry ''job-0001'' [Inr (sampleJob ''failed'')]
          (fst (mount ''job-0001'' [Inr (sampleJob ''failed'')])))
     = [HttpGet ''/api/result/job-0001'']
   \<and> \<not> list_ex isUpload
        (snd (handleRetry ''job-0001'' [Inr (sampleJob ''failed'')]
               (fst (mount ''job-0001'' [Inr (sampleJob ''failed'')]))))"
  by (simp add: handleRetry_def mount_def initialState_def sampleJob_def resultPath_def
      maxRetries_def Let_def)

text \<open>
  C5 as amended.  The retry action re-queries the job it is shown for.  It puts the
  page into the loading state, with no error and the retry counter at 0, and sends the
  status query for the same job id: that is the page while the query is awaited.  Every
  request it causes is that query, the first effect is that query, and no upload
  request is sent, so no new job is created.  When the answer says the job is still
  failed, the page is in the error state again, no longer loading.
\<close>

theorem C5_retry_requeries_same_job:
  "handleRetry jobId [] st
     = (st\<lparr>rs_loading := True, rs_error := None, rs_retryCount := 0\<rparr>,
        [HttpGet (resultPath jobId)])
   \<and> set (filter isHttp (snd (handleRetry jobId rsps st))) = {HttpGet (resultPath jobId)}
   \<and> hd (snd (handleRetry jobId rsps st)) = HttpGet (resultPath jobId)
   \<and> \<not> list_ex isUpload (snd (handleRetry jobId rsps st))
   \<and> handleRetry jobId (Inr (job\<lparr>jd_status := ''failed''\<rparr>) # rest) st
       = (st\<lparr>rs_loading := False,
              rs_error := Some (orDefault (jd_error job) ''Processing failed''),
              rs_retryCount := 0,
              rs_job := Some (job\<lparr>jd_status := ''failed''\<rparr>)\<rparr>,
          [HttpGet (resultPath jobId)])"
proof -
  let ?tr = "snd (handleRetry jobId rsps st)"
  have pending: "handleRetry jobId [] st
     = (st\<lparr>rs_loading := True, rs_error := None, rs_retryCount := 0\<rparr>,
        [HttpGet (resultPath jobId)])"
    by (simp add: handleRetry_def)
  have ne: "?tr \<noteq> []"
    by (simp add: handleRetry_def fetchResults_nonempty)
  have first: "hd ?tr = HttpGet (resultPath jobId)"
    by (simp add: handleRetry_def fetchResults_first)
  have "hd ?tr \<in> set ?tr"
    using ne by simp
  then have mem: "HttpGet (resultPath jobId) \<in> set (filter isHttp ?tr)"
    using first by simp
  have sub: "\<And>e. e \<in> set (filter isHttp ?tr) \<Longrightarrow> e = HttpGet (resultPath jobId)"
    by (auto simp: handleRetry_def dest: fetchResults_http)
  have reqs: "set (filter isHttp ?tr) = {HttpGet (resultPath jobId)}"
    using mem sub by blast
  have noup: "\<not> list_ex isUpload ?tr"
    by (simp add: handleRetry_def fetchResults_no_upload)
  have failed: "handleRetry jobId (Inr (job\<lparr>jd_status := ''failed''\<rparr>) # rest) st
       = (st\<lparr>rs_loading := False,
              rs_error := Some (orDefault (jd_error job) ''Processing failed''),
              rs_retryCount := 0,
              rs_job := Some (job\<lparr>jd_status := ''failed''\<rparr>)\<rparr>,
          [HttpGet (resultPath jobId)])"
    by (simp add: handleRetry_def Let_def)
  show ?thesis using pending reqs first noup failed by blast
qed

theorem C5_retry_requeries_same_job_witness:
  "rs_loading (fst (handleRetry ''job-0001'' []
        (fst (mount ''job-0001'' [Inr (sampleJob ''failed'')]))))
   \<and> rs_error (fst (handleRetry ''job-0001'' []
        (fst (mount ''job-0001'' [Inr (sampleJob ''failed'')])))) = None
   \<and> rs_error (fst (mount ''job-0001'' [Inr (sampleJob ''failed'')])) = Some ''Processing failed''
   \<and> \<not> rs_loading (fst (mount ''job-0001'' [Inr (sampleJob ''failed'')]))
   \<and> set (filter isHttp (snd (handleRetry ''job-0001'' [Inr (sampleJob ''failed'')]
          (fst (mount ''job-0001'' [Inr (sampleJob ''failed'')])))))
     = {HttpGet (resultPath ''job-0001'')}
   \<and> \<not> list_ex isUpload (snd (handleRetry ''job-0001'' [Inr (sampleJob ''failed'')]
          (fst (mount ''job-0001'' [Inr (sampleJob ''failed'')]))))"
proof -
  have before: "rs_error (fst (mount ''job-0001'' [Inr (sampleJob ''failed'')]))
        = Some ''Processing failed''
      \<and> \<not> rs_loading (fst (mount ''job-0001'' [Inr (sampleJob ''failed'')]))"
    by (simp add: mount_def initialState_def sampleJob_def maxRetries_def orDefault_def Let_def)
  note t1 = C5_retry_requeries_same_job [of "''job-0001''"
      "fst (mount ''job-0001'' [Inr (sampleJob ''failed'')])" "[Inr (sampleJob ''failed'')]"]
  have pend: "handleRetry ''job-0001'' [] (fst (mount ''job-0001'' [Inr (sampleJob ''failed'')]))
     = ((fst (mount ''job-0001'' [Inr (sampleJob ''failed'')]))
          \<lparr>rs_loading := True, rs_error := None, rs_retryCount := 0\<rparr>,
        [HttpGet (resultPath ''job-0001'')])"
    by (rule t1 [THEN conjunct1])
  have reqs: "set (filter isHttp (snd (handleRetry ''job-0001'' [Inr (sampleJob ''failed'')]
          (fst (mount ''job-0001'' [Inr (sampleJob ''failed'')])))))
     = {HttpGet (resultPath ''job-0001'')}"
    by (rule t1 [THEN conjunct2, THEN conjunct1])
  have noup: "\<not> list_ex isUpload (snd (handleRetry ''job-0001'' [Inr (sampleJob ''failed'')]
          (fst (mount ''job-0001'' [Inr (sampleJob ''failed'')]))))"
    by (rule t1 [THEN conjunct2, THEN conjunct2, THEN conjunct2, THEN conjunct1])
  show ?thesis
    unfolding pend using before reqs noup by simp
qed

text \<open>
  C7.  When the export request for a job returns a byte stream, the export action
  downloads exactly that stream, once, under the name made of \<open>sof_events_\<close>, the first
  8 characters of the job id, a dot and the kind; the request it sent is the export
  request for that job and kind.  This holds for every kind, so for csv and json.
\<close>

theorem C7_export_filename:
  "downloads (handleExport jobId kind (Inr bytes))
     = [(''sof_events_'' @ take 8 jobId @ ''.'' @ kind, bytes)]
   \<and> filter isHttp (handleExport jobId kind (Inr bytes))
     = [HttpPost (''/api/export/'' @ jobId @ ''?type='' @ kind) EmptyBody]
   \<and> downloads (handleExport jobId kind (Inl detail)) = []"
  by (simp add: handleExport_def exportPath_def)

theorem C7_export_filename_witness:
  "downloads (handleExport ''3f2a9c1e-77b0-4d1c-9a51-0c2f6e1d8a44'' ''csv'' (Inr [101, 118]))
     = [(''sof_events_3f2a9c1e.csv'', [101, 118])]
   \<and> downloads (handleExport ''3f2a9c1e-77b0-4d1c-9a51-0c2f6e1d8a44'' ''json'' (Inr [91, 93]))
     = [(''sof_events_3f2a9c1e.json'', [91, 93])]"
  using C7_export_filename [of "''3f2a9c1e-77b0-4d1c-9a51-0c2f6e1d8a44''" "''csv''" "[101, 118]"]
    C7_export_filename [of "''3f2a9c1e-77b0-4d1c-9a51-0c2f6e1d8a44''" "''json''" "[91, 93]"]
  by simp

section \<open>Timeline: the processed sequence\<close>

lemma processEvent_None:
  "processEvent L e i = None \<longleftrightarrow> \<not> validStart L e"
  by (simp add: processEvent_def validStart_def startTimestamp_def Let_def
      split: option.splits)

lemma processEvent_Some:
  assumes "processEvent L e i = Some t"
  shows "te_event t = ev_event e" and "startTimestamp L e = Some (te_startTime t)"
    and "te_start t = te_startTime t" and "1 / 2 \<le> te_duration t" and "te_id t = i"
  using assms
  by (auto simp add: processEvent_def startTimestamp_def Let_def split: option.splits)

lemma processEvent_clamped:
  assumes "processEvent L e i = Some t" and "notAfter (endTimestamp L e) (te_startTime t)"
  shows "te_duration t = 1 / 2"
  using assms
  by (auto simp add: processEvent_def endTimestamp_def notAfter_def truthy_def Let_def
      split: option.splits if_splits)

lemma validStart_truthy:
  "dl_parse L [] = None \<Longrightarrow> validStart L e \<Longrightarrow> truthy (ev_start e)"
  by (auto simp: validStart_def startTimestamp_def truthy_def split: option.splits)

text \<open>
  Before the sort: the entries are those of the events with a valid start, in the
  order of the input.  The index given to the callback counts the events that passed
  the first filter, so the statement is for every starting index.
\<close>

lemma entries_in_input_order:
  assumes "dl_parse L [] = None"
  shows "map (\<lambda>t. (te_event t, Some (te_startTime t)))
       (filterBoolean (map (\<lambda>(index, event). processEvent L event index)
          (enumerate n (filter (\<lambda>event. truthy (ev_start event)) events))))
     = map (\<lambda>e. (ev_event e, startTimestamp L e)) (filter (validStart L) events)"
proof (induction events arbitrary: n)
  case Nil
  show ?case by simp
next
  case (Cons e es)
  show ?case
  proof (cases "truthy (ev_start e)")
    case False
    with validStart_truthy[OF assms, of e] Cons.IH[of n] show ?thesis by auto
  next
    case True
    show ?thesis
    proof (cases "processEvent L e n")
      case None
      then have "\<not> validStart L e" using processEvent_None[of L e n] by simp
      with None True Cons.IH[of "Suc n"] show ?thesis by simp
    next
      case (Some t)
      then have "validStart L e" using processEvent_None[of L e n] by auto
      with Some True Cons.IH[of "Suc n"] processEvent_Some[OF Some] show ?thesis by simp
    qed
  qed
qed

lemma entries_duration:
  "t \<in> set (filterBoolean (map (\<lambda>(index, event). processEvent L event index) xs))
     \<Longrightarrow> 1 / 2 \<le> te_duration t"
proof (induction xs)
  case Nil
  then show ?case by simp
next
  case (Cons x xs)
  obtain i e where x: "x = (i, e)" by (cases x)
  show ?case
  proof (cases "processEvent L e i")
    case None
    with Cons x show ?thesis by simp
  next
    case (Some u)
    with Cons.prems x
    have "t = u \<or> t \<in> set (filterBoolean (map (\<lambda>(index, event). processEvent L event index) xs))"
      by simp
    with Cons.IH processEvent_Some(4)[OF Some] show ?thesis by blast
  qed
qed

lemma timelineData_duration:
  assumes "t \<in> set (timelineData L events)"
  shows "1 / 2 \<le> te_duration t"
proof -
  from assms
  have "t \<in> set (filterBoolean (map (\<lambda>(index, event). processEvent L event index)
          (enumerate 0 (filter (\<lambda>event. truthy (ev_start event)) events))))"
    by (simp add: timelineData_def split: if_splits)
  then show ?thesis by (rule entries_duration)
qed

text \<open>The sample events, processed: three entries, by start time.\<close>

lemma timelineData_demo:
  "map (\<lambda>t. (te_id t, te_event t, te_startTime t, te_endTime t, te_duration t))
     (timelineData demoDates demoEvents)
   = [(3, ''Arrival'', 1709272800000, 1709272800000, 1 / 2),
      (2, ''Loading Commenced'', 1709281800000, 1709294400000, 7 / 2),
      (0, ''Departure'', 1709318700000, 1709318700000, 1 / 2)]"
  by (simp add: timelineData_def demoEvents_def demoDates_def sampleEvent_def truthy_def
      processEvent_def orDefault_def Let_def)

text \<open>
  C6.  Given that the empty string is not a date (as for the \<open>Date\<close> constructor),
  the processed sequence of the timeline is sorted in ascending order of start time
  value, and its entries are exactly the events of the input whose start field parses
  to a valid date, each once, with the event's name and that time value: the order of
  the input has no influence beyond the order among equal start times.
\<close>

theorem C6_timeline_sorted_valid_starts:
  assumes "dl_parse L [] = None"
  shows "sorted (map te_startTime (timelineData L events))
     \<and> mset (map (\<lambda>t. (te_event t, Some (te_startTime t))) (timelineData L events))
        = mset (map (\<lambda>e. (ev_event e, startTimestamp L e)) (filter (validStart L) events))
     \<and> length (timelineData L events) = length (filter (validStart L) events)"
proof -
  let ?raw = "filterBoolean (map (\<lambda>(index, event). processEvent L event index)
          (enumerate 0 (filter (\<lambda>event. truthy (ev_start event)) events)))"
  have tl: "timelineData L events = sort_key te_startTime ?raw"
    by (simp add: timelineData_def)
  have srt: "sorted (map te_startTime (timelineData L events))"
    unfolding tl by (rule sorted_sort_key)
  have "mset (map (\<lambda>t. (te_event t, Some (te_startTime t))) (sort_key te_startTime ?raw))
      = mset (map (\<lambda>t. (te_event t, Some (te_startTime t))) ?raw)"
    by simp
  then have ms: "mset (map (\<lambda>t. (te_event t, Some (te_startTime t))) (timelineData L events))
      = mset (map (\<lambda>e. (ev_event e, startTimestamp L e)) (filter (validStart L) events))"
    unfolding tl using entries_in_input_order[OF assms, of 0 events] by simp
  have "length (map (\<lambda>t. (te_event t, Some (te_startTime t))) ?raw)
      = length (map (\<lambda>e. (ev_event e, startTimestamp L e)) (filter (validStart L) events))"
    using entries_in_input_order[OF assms, of 0 events] by (rule arg_cong)
  then have len: "length (timelineData L events) = length (filter (validStart L) events)"
    unfolding tl by simp
  show ?thesis using srt ms len by blast
qed

theorem C6_timeline_sorted_valid_starts_witness:
  "dl_parse demoDates [] = None
   \<and> sorted (map te_startTime (timelineData demoDates demoEvents))
   \<and> length (timelineData demoDates demoEvents) = length (filter (validStart demoDates) demoEvents)
   \<and> map te_event (timelineData demoDates demoEvents)
       = [''Arrival'', ''Loading Commenced'', ''Departure'']"
proof -
  have h: "dl_parse demoDates [] = None"
    by (simp add: demoDates_def)
  have names: "map te_event (timelineData demoDates demoEvents)
       = map (\<lambda>(i, n, s, e, d). n) (map (\<lambda>t. (te_id t, te_event t, te_startTime t, te_endTime t, te_duration t))
     (timelineData demoDates demoEvents))"
    by (simp add: comp_def)
  show ?thesis
    using h C6_timeline_sorted_valid_starts [OF h, of demoEvents] names
    by (simp add: timelineData_demo)
qed

section \<open>Timeline: durations and the hourly distribution\<close>

text \<open>
  C9.  Every entry of the processed sequence has a duration of at least half an hour,
  so its duration text is the hours text and never the Instant branch; and an entry
  made from an event whose end is missing, does not parse, or is not after the start
  has exactly the half hour.
\<close>

theorem C9_minimum_duration:
  "(\<forall>t \<in> set (timelineData L events).
       1 / 2 \<le> te_duration t \<and> durationLabel t = Hours (te_duration t)
       \<and> durationLabel t \<noteq> Instant)
   \<and> (processEvent L e i = Some u \<longrightarrow> notAfter (endTimestamp L e) (te_startTime u)
        \<longrightarrow> te_duration u = 1 / 2)"
proof -
  have a: "\<forall>t \<in> set (timelineData L events).
       1 / 2 \<le> te_duration t \<and> durationLabel t = Hours (te_duration t)
       \<and> durationLabel t \<noteq> Instant"
  proof
    fix t
    assume "t \<in> set (timelineData L events)"
    then have "1 / 2 \<le> te_duration t" by (rule timelineData_duration)
    then show "1 / 2 \<le> te_duration t \<and> durationLabel t = Hours (te_duration t)
       \<and> durationLabel t \<noteq> Instant"
      by (simp add: durationLabel_def)
  qed
  have b: "processEvent L e i = Some u \<longrightarrow> notAfter (endTimestamp L e) (te_startTime u)
        \<longrightarrow> te_duration u = 1 / 2"
    using processEvent_clamped by blast
  show ?thesis using a b by blast
qed

theorem C9_minimum_duration_witness:
  "map te_duration (timelineData demoDates demoEvents) = [1 / 2, 7 / 2, 1 / 2]
   \<and> list_all (\<lambda>t. 1 / 2 \<le> te_duration t \<and> durationLabel t \<noteq> Instant)
        (timelineData demoDates demoEvents)
   \<and> processEvent demoDates (sampleEvent ''Departure'' (Some ''2024-03-01T18:45:00Z'') None) 0
       \<noteq> None
   \<and> notAfter (endTimestamp demoDates
         (sampleEvent ''Departure'' (Some ''2024-03-01T18:45:00Z'') None)) 1709318700000
   \<and> te_duration (the (processEvent demoDates
         (sampleEvent ''Departure'' (Some ''2024-03-01T18:45:00Z'') None) 0)) = 1 / 2"
proof -
  have durs: "map te_duration (timelineData demoDates demoEvents)
       = map (\<lambda>(i, n, s, e, d). d)
           (map (\<lambda>t. (te_id t, te_event t, te_startTime t, te_endTime t, te_duration t))
              (timelineData demoDates demoEvents))"
    by (simp add: comp_def)
  have d: "map te_duration (timelineData demoDates demoEvents) = [1 / 2, 7 / 2, 1 / 2]"
    unfolding durs timelineData_demo by simp
  have all: "list_all (\<lambda>t. 1 / 2 \<le> te_duration t \<and> durationLabel t \<noteq> Instant)
        (timelineData demoDates demoEvents)"
    using C9_minimum_duration [of demoDates demoEvents]
    by (simp add: list_all_iff)
  obtain u where u: "processEvent demoDates
      (sampleEvent ''Departure'' (Some ''2024-03-01T18:45:00Z'') None) 0 = Some u"
    and st: "te_startTime u = 1709318700000"
    by (simp add: processEvent_def demoDates_def sampleEvent_def truthy_def Let_def)
  have na: "notAfter (endTimestamp demoDates
         (sampleEvent ''Departure'' (Some ''2024-03-01T18:45:00Z'') None)) 1709318700000"
    by (simp add: notAfter_def endTimestamp_def sampleEvent_def)
  have "te_duration u = 1 / 2"
    using C9_minimum_duration [of demoDates demoEvents
        "sampleEvent ''Departure'' (Some ''2024-03-01T18:45:00Z'') None" 0 u] u na st
    by simp
  then show ?thesis using d all u na by simp
qed









section \<open>Upload form\<close>

lemma uploadFile_first:
  "hd (snd (uploadFile file answer st)) = HttpPost ''/api/upload'' (FormFile file)"
  by (simp add: uploadFile_def)

lemma uploadFile_uploads:
  "list_ex isUpload (snd (uploadFile file answer st))"
  by (simp add: uploadFile_def)

lemma acceptAttr_entries:
  "acceptAttr =
     [''application/pdf'', ''.pdf'',
      ''application/vnd.openxmlformats-officedocument.wordprocessingml.document'', ''.docx'',
      ''application/msword'', ''.doc'',
      ''image/*'', ''.png'', ''.jpg'', ''.jpeg'', ''.tiff'']"
  by (simp add: acceptAttr_def acceptTable_def)

lemma entries_lower_case:
  "toLowerCase ''application/pdf'' = ''application/pdf''"
  "toLowerCase ''application/vnd.openxmlformats-officedocument.wordprocessingml.document''
     = ''application/vnd.openxmlformats-officedocument.wordprocessingml.document''"
  "toLowerCase ''application/msword'' = ''application/msword''"
  "toLowerCase ''image/*'' = ''image/*''"
  "toLowerCase ''.pdf'' = ''.pdf''" "toLowerCase ''.docx'' = ''.docx''"
  "toLowerCase ''.doc'' = ''.doc''" "toLowerCase ''.png'' = ''.png''"
  "toLowerCase ''.jpg'' = ''.jpg''" "toLowerCase ''.jpeg'' = ''.jpeg''"
  "toLowerCase ''.tiff'' = ''.tiff''"
  by code_simp+

lemma matchesEntry_extension:
  "entry \<in> {''.pdf'', ''.docx'', ''.doc'', ''.png'', ''.jpg'', ''.jpeg'', ''.tiff''}
     \<Longrightarrow> matchesEntry file entry = endsWith (toLowerCase (f_name file)) entry"
  by (auto simp: matchesEntry_def entries_lower_case Let_def)

lemma matchesEntry_type:
  "entry \<in> {''application/pdf'',
       ''application/vnd.openxmlformats-officedocument.wordprocessingml.document'',
       ''application/msword''}
     \<Longrightarrow> matchesEntry file entry = (toLowerCase (f_type file) = entry)"
  by (auto simp: matchesEntry_def entries_lower_case endsWith_def Let_def)

lemma matchesEntry_image:
  "matchesEntry file ''image/*'' = (baseType (toLowerCase (f_type file)) = ''image'')"
  by (simp add: matchesEntry_def entries_lower_case endsWith_def baseType_def Let_def)

text \<open>The accept table of the form passes exactly the formats spelled out.\<close>

lemma fileAccepted_formats: "fileAccepted file = formatAccepted file"
  unfolding fileAccepted_def formatAccepted_def accepts_def acceptAttr_entries
  by (simp add: matchesEntry_extension matchesEntry_type matchesEntry_image) blast

lemma withMimeType_name_size:
  "f_name (withMimeType tbl file) = f_name file" "f_size (withMimeType tbl file) = f_size file"
  by (simp_all add: withMimeType_def split: option.splits)

lemma withMimeType_typed: "f_type file \<noteq> [] \<Longrightarrow> withMimeType tbl file = file"
  by (simp add: withMimeType_def)

lemma dropFile_rejected_silent:
  "\<not> (fileAccepted (withMimeType tbl file) \<and> f_size file \<le> maxSize)
     \<Longrightarrow> dropFile tbl file answer st = (st, [])"
  by (auto simp: dropFile_def onDrop_def fileMatchSize_def withMimeType_name_size Let_def)

lemma dropFile_accepted:
  "fileAccepted (withMimeType tbl file) \<Longrightarrow> f_size file \<le> maxSize
     \<Longrightarrow> dropFile tbl file answer st = uploadFile (withMimeType tbl file) answer st"
  by (simp add: dropFile_def onDrop_def fileMatchSize_def maxSize_def withMimeType_name_size
      Let_def)

lemma sample_formats:
  "formatAccepted reportPdf" "\<not> formatAccepted notesTxt" "formatAccepted chartGif"
  by (simp_all add: formatAccepted_def reportPdf_def notesTxt_def chartGif_def) code_simp+

lemma sample_typed:
  "withMimeType sampleMimeTypes reportPdf = reportPdf"
  "withMimeType sampleMimeTypes notesTxt = notesTxt"
  "withMimeType sampleMimeTypes chartGif = chartGif"
  by (simp_all add: withMimeType_typed reportPdf_def notesTxt_def chartGif_def)

text \<open>
  C4 as stated: the upload is sent only for pdf, docx, doc, png, jpg, jpeg and tiff,
  and a file of any other type is rejected with an error message.  A small text file is
  rejected, but the form shows no message (it does nothing); and a small gif image,
  which is none of the listed formats, is uploaded.
\<close>

theorem C4_format_and_message_counterexample:
  "snd (dropFile sampleMimeTypes notesTxt (Inr ''job-0002'') idleUpload) = []
   \<and> \<not> list_ex isErrorMessage
        (snd (dropFile sampleMimeTypes notesTxt (Inr ''job-0002'') idleUpload))
   \<and> f_size chartGif \<le> 10 * 1024 * 1024
   \<and> list_ex isUpload (snd (dropFile sampleMimeTypes chartGif (Inr ''job-0002'') idleUpload))"
proof -
  have n: "dropFile sampleMimeTypes notesTxt (Inr ''job-0002'') idleUpload = (idleUpload, [])"
    by (rule dropFile_rejected_silent)
       (simp add: sample_typed fileAccepted_formats sample_formats)
  have s: "f_size chartGif \<le> maxSize"
    by (simp add: chartGif_def maxSize_def)
  have g: "dropFile sampleMimeTypes chartGif (Inr ''job-0002'') idleUpload
      = uploadFile chartGif (Inr ''job-0002'') idleUpload"
    using dropFile_accepted [of sampleMimeTypes chartGif, OF _ s]
    by (simp add: sample_typed fileAccepted_formats sample_formats)
  show ?thesis
    unfolding n g using s by (simp add: uploadFile_uploads maxSize_def)
qed

text \<open>
  C4 as amended.  The form sends the upload request if and only if the chosen file is
  at most 10 MB (10 * 1024 * 1024 bytes) and its format passes the form's accept table,
  that is: its type, after the dropzone has given a file without a type the common
  type of its extension, is that of pdf, docx or doc or is any image type, or its name
  ends in .pdf, .docx, .doc, .png, .jpg, .jpeg or .tiff.  The request then carries that
  file and is the first thing the form does; in particular every file at most 10 MB
  whose name ends in one of the seven extensions is uploaded.  A file whose format is
  not accepted causes no upload request and no error message: the form does nothing.
\<close>

theorem C4_upload_iff_accepted:
  "(list_ex isUpload (snd (dropFile commonMimeTypes file answer st))
      \<longleftrightarrow> f_size file \<le> 10 * 1024 * 1024
          \<and> formatAccepted (withMimeType commonMimeTypes file))
   \<and> (f_size file \<le> 10 * 1024 * 1024 \<and> formatAccepted (withMimeType commonMimeTypes file)
        \<longrightarrow> hd (snd (dropFile commonMimeTypes file answer st))
              = HttpPost ''/api/upload'' (FormFile (withMimeType commonMimeTypes file)))
   \<and> (f_size file \<le> 10 * 1024 * 1024
        \<and> list_ex (endsWith (toLowerCase (f_name file)))
             [''.pdf'', ''.docx'', ''.doc'', ''.png'', ''.jpg'', ''.jpeg'', ''.tiff'']
        \<longrightarrow> list_ex isUpload (snd (dropFile commonMimeTypes file answer st)))
   \<and> (\<not> formatAccepted (withMimeType commonMimeTypes file)
        \<longrightarrow> snd (dropFile commonMimeTypes file answer st) = [])"
proof -
  let ?f = "withMimeType commonMimeTypes file"
  have byName: "list_ex (endsWith (toLowerCase (f_name file)))
             [''.pdf'', ''.docx'', ''.doc'', ''.png'', ''.jpg'', ''.jpeg'', ''.tiff'']
        \<Longrightarrow> formatAccepted ?f"
    by (simp add: formatAccepted_def withMimeType_name_size)
  show ?thesis
  proof (cases "fileAccepted ?f \<and> f_size file \<le> maxSize")
    case True
    then have "dropFile commonMimeTypes file answer st = uploadFile ?f answer st"
      by (simp add: dropFile_accepted)
    with True show ?thesis
      by (simp add: uploadFile_first uploadFile_uploads maxSize_def fileAccepted_formats)
  next
    case False
    then have "dropFile commonMimeTypes file answer st = (st, [])"
      by (rule dropFile_rejected_silent)
    with False byName show ?thesis
      by (auto simp: maxSize_def fileAccepted_formats)
  qed
qed

theorem C4_upload_iff_accepted_witness:
  "f_size reportPdf \<le> 10 * 1024 * 1024
   \<and> formatAccepted (withMimeType sampleMimeTypes reportPdf)
   \<and> list_ex isUpload (snd (dropFile sampleMimeTypes reportPdf (Inr ''job-0002'') idleUpload))
   \<and> hd (snd (dropFile sampleMimeTypes reportPdf (Inr ''job-0002'') idleUpload))
       = HttpPost ''/api/upload'' (FormFile reportPdf)
   \<and> \<not> formatAccepted (withMimeType sampleMimeTypes notesTxt)
   \<and> snd (dropFile sampleMimeTypes notesTxt (Inr ''job-0002'') idleUpload) = []"
proof -
  have s: "f_size reportPdf \<le> 10 * 1024 * 1024"
    by (simp add: reportPdf_def)
  have p: "formatAccepted (withMimeType sampleMimeTypes reportPdf)"
    by (simp add: sample_typed sample_formats)
  have n: "\<not> formatAccepted (withMimeType sampleMimeTypes notesTxt)"
    by (simp add: sample_typed sample_formats)
  show ?thesis
    using s p n sample_typed(1)
      C4_upload_iff_accepted [of sampleMimeTypes reportPdf "Inr ''job-0002''" idleUpload]
      C4_upload_iff_accepted [of sampleMimeTypes notesTxt "Inr ''job-0002''" idleUpload]
    by simp
qed

section \<open>Job lifecycle\<close>

lemma jobInvariant_submit: "jobInvariant (submit job_id owner filename content_type now)"
  by (simp add: jobInvariant_def submit_def)

lemma jobInvariant_transition:
  "jobInvariant j \<Longrightarrow> transition now j ev = Some j' \<Longrightarrow> jobInvariant j'"
  by (cases ev) (auto simp: jobInvariant_def split: if_splits)

lemma jobInvariant_runJob:
  "jobInvariant j \<Longrightarrow> jobInvariant (runJob j happenings)"
proof (induction j happenings rule: runJob.induct)
  case (1 j)
  then show ?case by simp
next
  case (2 j now ev rest)
  show ?case
  proof (cases "transition now j ev")
    case None
    with 2 show ?thesis by simp
  next
    case (Some j')
    with 2 jobInvariant_transition[OF "2.prems" Some] show ?thesis by simp
  qed
qed

text \<open>
  The client side of the warning: the table component shows the warning card only for
  a non-empty events list that holds a warning element; for an empty list it shows the
  empty-list card.
\<close>

lemma ResultTable_warning_card:
  "ResultTable events = WarningCard d s \<Longrightarrow> events \<noteq> [] \<and> list_ex isWarningEvent events"
  by (auto simp: ResultTable_def split: if_splits option.splits)

lemma ResultTable_empty: "ResultTable [] = NoEventsFound"
  by (simp add: ResultTable_def)

text \<open>
  C3.  For every job, from its submission through any sequence of pipeline
  happenings: the events list is non-empty only if the validation warning is unset; a
  job that carries a warning is completed and has an empty events list; and the
  validator's warning takes a processing job to completed, with no events and with the
  warning payload (description and suggestion) set.
\<close>

theorem C3_events_only_without_warning:
  "(j_events (runJob (submit job_id owner filename content_type now) happenings) \<noteq> []
      \<longrightarrow> j_validation_warning
            (runJob (submit job_id owner filename content_type now) happenings) = None)
   \<and> (j_validation_warning
         (runJob (submit job_id owner filename content_type now) happenings) \<noteq> None
      \<longrightarrow> j_status (runJob (submit job_id owner filename content_type now) happenings)
            = Completed
          \<and> j_events (runJob (submit job_id owner filename content_type now) happenings) = [])
   \<and> (j_status j = Processing
      \<longrightarrow> transition t j (ValidatorWarning w)
            = Some (j\<lparr>j_status := Completed, j_updated_at := t, j_events := [],
                       j_validation_warning := Some w\<rparr>))"
proof -
  have "jobInvariant (runJob (submit job_id owner filename content_type now) happenings)"
    by (rule jobInvariant_runJob) (rule jobInvariant_submit)
  then show ?thesis
    by (auto simp: jobInvariant_def)
qed

theorem C3_events_only_without_warning_witness:
  "j_events (runJob (submit ''job-0001'' ''alice'' ''sof.pdf'' ''application/pdf'' 0)
       [(1, WorkerPickedUp), (2, ExtractionSucceeds demoEvents)]) \<noteq> []
   \<and> j_validation_warning (runJob (submit ''job-0001'' ''alice'' ''sof.pdf'' ''application/pdf'' 0)
       [(1, WorkerPickedUp), (2, ExtractionSucceeds demoEvents)]) = None
   \<and> j_validation_warning (runJob (submit ''job-0002'' ''alice'' ''notes.pdf'' ''application/pdf'' 0)
       [(1, WorkerPickedUp), (2, ValidatorWarning sampleWarning)]) = Some sampleWarning
   \<and> j_status (runJob (submit ''job-0002'' ''alice'' ''notes.pdf'' ''application/pdf'' 0)
       [(1, WorkerPickedUp), (2, ValidatorWarning sampleWarning)]) = Completed
   \<and> j_events (runJob (submit ''job-0002'' ''alice'' ''notes.pdf'' ''application/pdf'' 0)
       [(1, WorkerPickedUp), (2, ValidatorWarning sampleWarning)]) = []"
proof -
  have a: "j_events (runJob (submit ''job-0001'' ''alice'' ''sof.pdf'' ''application/pdf'' 0)
       [(1, WorkerPickedUp), (2, ExtractionSucceeds demoEvents)]) \<noteq> []"
    by (simp add: submit_def demoEvents_def)
  have b: "j_validation_warning (runJob (submit ''job-0002'' ''alice'' ''notes.pdf'' ''application/pdf'' 0)
       [(1, WorkerPickedUp), (2, ValidatorWarning sampleWarning)]) = Some sampleWarning"
    by (simp add: submit_def)
  show ?thesis
    using a b
      C3_events_only_without_warning [of "''job-0001''" "''alice''" "''sof.pdf''"
        "''application/pdf''" 0 "[(1, WorkerPickedUp), (2, ExtractionSucceeds demoEvents)]"]
      C3_events_only_without_warning [of "''job-0002''" "''alice''" "''notes.pdf''"
        "''application/pdf''" 0 "[(1, WorkerPickedUp), (2, ValidatorWarning sampleWarning)]"]
    by simp
qed

end
